theory Spec2Isabelle
  imports Main
begin

section \<open>Values shared by the two programs\<close>

text \<open>
  The repository holds two Go programs, \<^verbatim>\<open>https_server.go\<close> and \<^verbatim>\<open>https_client.go\<close>,
  and a README whose diffs describe further variants of both. Each program is a short
  sequence of calls into Go's standard library (\<^verbatim>\<open>net/http\<close>, \<^verbatim>\<open>crypto/tls\<close>, \<^verbatim>\<open>fmt\<close>,
  \<^verbatim>\<open>log\<close>, \<^verbatim>\<open>io/ioutil\<close>). The programs are embedded as functions that return the trace
  of the calls they make; what a library call returns is either a parameter of the
  program or, in the later sections, given by a small model of the library's documented
  contract. The library models are marked as such: they are not code of this repository.
\<close>

type_synonym bytes = string

text \<open>
  Go's \<^verbatim>\<open>error\<close> values. The constructors separate the failures the README documents;
  failures of the operating system and the network carry their message.
\<close>

datatype error =
    UnknownAuthorityError
  | HostnameError string
  | ClientCertificateMissing
  | ClientCertificateRejected
  | KeyPairError
  | OpError string
  | PathError string

text \<open>An abstract X.509 certificate: who holds it, which key signed it, the names it covers.\<close>

record certificate =
  public_key :: nat
  signed_by :: nat
  valid_for :: "string list"

type_synonym CertPool = "certificate list"

text \<open>\<^verbatim>\<open>tls.Certificate\<close>: a leaf certificate with its private key.\<close>

record tls_Certificate =
  Leaf :: certificate
  PrivateKey :: nat

datatype ClientAuthType =
    NoClientCert
  | RequestClientCert
  | RequireAnyClientCert
  | VerifyClientCertIfGiven
  | RequireAndVerifyClientCert

text \<open>The fields of \<^verbatim>\<open>tls.Config\<close> that the programs and the README's variants set.\<close>

record tls_Config =
  Certificates :: "tls_Certificate list"
  RootCAs :: "CertPool option"
  ClientCAs :: "CertPool option"
  ClientAuth :: ClientAuthType
  InsecureSkipVerify :: bool

text \<open>\<^verbatim>\<open>&tls.Config{}\<close>: every field at Go's zero value.\<close>

definition tls_Config_zero :: tls_Config where
  "tls_Config_zero =
     \<lparr>Certificates = [], RootCAs = None, ClientCAs = None,
      ClientAuth = NoClientCert, InsecureSkipVerify = False\<rparr>"

section \<open>The server's handler (\<^verbatim>\<open>https_server.go\<close>, lines 19 to 23)\<close>

record Request =
  Method :: string
  URL :: string
  Header :: "(string \<times> string) list"
  ReqBody :: bytes

text \<open>
  Library model: \<^verbatim>\<open>http.ResponseWriter\<close>, as its interface documents it. \<^verbatim>\<open>WriteHeader\<close>
  fixes the status code once; \<^verbatim>\<open>Write\<close> first calls \<^verbatim>\<open>WriteHeader(http.StatusOK)\<close> when no
  header has been written, then appends the data to the reply. The record is what the
  handler has handed to the writer; how \<^verbatim>\<open>net/http\<close> frames it on the wire is not part of
  the model.
\<close>

record ResponseWriter =
  wroteHeader :: bool
  status :: nat
  written :: bytes

definition newResponseWriter :: ResponseWriter where
  "newResponseWriter = \<lparr>wroteHeader = False, status = 0, written = []\<rparr>"

definition StatusOK :: nat where
  "StatusOK = 200"

definition WriteHeader :: "ResponseWriter \<Rightarrow> nat \<Rightarrow> ResponseWriter" where
  "WriteHeader w code =
     (if wroteHeader w then w else w\<lparr>wroteHeader := True, status := code\<rparr>)"

definition Write :: "ResponseWriter \<Rightarrow> bytes \<Rightarrow> ResponseWriter" where
  "Write w data =
     (let w' = (if wroteHeader w then w else WriteHeader w StatusOK)
      in w'\<lparr>written := written w' @ data\<rparr>)"

text \<open>\<^verbatim>\<open>type handler struct{}\<close> and its method.\<close>

datatype handler = handler_struct

definition ServeHTTP :: "handler \<Rightarrow> ResponseWriter \<Rightarrow> Request \<Rightarrow> ResponseWriter" where
  "ServeHTTP h w req = Write w ''PONG\<newline>''"

section \<open>The client (\<^verbatim>\<open>https_client.go\<close>)\<close>

record http_Transport =
  TLSClientConfig :: tls_Config

record http_Client =
  Transport :: http_Transport

text \<open>
  \<^verbatim>\<open>http.Response\<close>. \<^verbatim>\<open>Body\<close> is what \<^verbatim>\<open>ioutil.ReadAll(resp.Body)\<close> returns: the bytes of
  the whole body, or the error that interrupted the read.
\<close>

record Response =
  Status :: string
  StatusCode :: nat
  Body :: "error + bytes"

text \<open>The calls a client makes, in order. \<^verbatim>\<open>Exit\<close> is the end of the process.\<close>

datatype event =
    ReadFile string
  | LoadX509KeyPair string string
  | HttpGet http_Client string
  | ReadAll
  | LogPrintln error
  | LogFatal error
  | FmtPrintln error
  | FmtPrintf string "string list"
  | BodyClose
  | Exit nat

text \<open>
  Lines 18 to 31 of \<^verbatim>\<open>main\<close>, for a given client value. \<^verbatim>\<open>Get\<close> stands for the method
  \<^verbatim>\<open>client.Get\<close> of the library. The deferred \<^verbatim>\<open>resp.Body.Close()\<close> is registered at line 29
  and runs when \<^verbatim>\<open>main\<close> returns, after the two calls of \<^verbatim>\<open>fmt.Printf\<close>. Returning from
  \<^verbatim>\<open>main\<close> ends the process with exit status 0.
\<close>

definition request :: "(http_Client \<Rightarrow> string \<Rightarrow> error + Response) \<Rightarrow> http_Client \<Rightarrow> event list" where
  "request Get client =
     HttpGet client ''https://127.0.0.1:8443'' #
     (case Get client ''https://127.0.0.1:8443'' of
        Inl err \<Rightarrow> [LogPrintln err, Exit 0]
      | Inr resp \<Rightarrow>
          ReadAll #
          (case Body resp of
             Inl err \<Rightarrow> [FmtPrintln err, Exit 0]
           | Inr htmlData \<Rightarrow>
               [FmtPrintf ''%v\<newline>'' [Status resp],
                FmtPrintf htmlData [],
                BodyClose,
                Exit 0]))"

text \<open>Lines 12 to 16: the client value, then the rest of \<^verbatim>\<open>main\<close>.\<close>

definition client_main :: "(http_Client \<Rightarrow> string \<Rightarrow> error + Response) \<Rightarrow> event list" where
  "client_main Get =
     request Get \<lparr>Transport = \<lparr>TLSClientConfig = tls_Config_zero\<rparr>\<rparr>"

subsection \<open>What the calls of \<^verbatim>\<open>fmt.Printf\<close> write\<close>

text \<open>
  Library model: the formatter of \<^verbatim>\<open>fmt.Printf\<close> on string operands, for the fragment of
  formats the client can be seen to need. Text outside a directive is copied. A directive
  is \<^verbatim>\<open>%\<close>, flags among \<^verbatim>\<open>#0+- \<close>, and a verb: \<^verbatim>\<open>%%\<close> writes a percent sign and takes no
  operand; \<^verbatim>\<open>%v\<close> and \<^verbatim>\<open>%s\<close> without flags write the next operand; a verb with no operand
  left writes \<^verbatim>\<open>%!verb(MISSING)\<close>; a format that ends inside a directive writes
  \<^verbatim>\<open>%!(NOVERB)\<close>. The result is \<open>None\<close> for what the model leaves out: widths, precisions,
  argument indexes, verbs outside ASCII, other verbs or flags applied to an operand, and
  operands left over.
\<close>

fun doPrintf :: "string \<Rightarrow> string list \<Rightarrow> string option"
  and directive :: "bool \<Rightarrow> string \<Rightarrow> string list \<Rightarrow> string option" where
  "doPrintf [] a = (if a = [] then Some [] else None)"
| "doPrintf (c # cs) a =
     (if c = CHR ''%'' then directive False cs a
      else map_option ((#) c) (doPrintf cs a))"
| "directive flags [] a = (if a = [] then Some ''%!(NOVERB)'' else None)"
| "directive flags (c # cs) a =
     (if c \<in> set ''#0+- '' then directive True cs a
      else if c \<in> set ''[*.123456789'' \<or> 128 \<le> (of_char c :: nat) then None
      else if c = CHR ''%'' then map_option ((#) c) (doPrintf cs a)
      else (case a of
              [] \<Rightarrow> map_option (\<lambda>out. ''%!'' @ [c] @ ''(MISSING)'' @ out) (doPrintf cs a)
            | x # xs \<Rightarrow>
                if (c = CHR ''v'' \<or> c = CHR ''s'') \<and> \<not> flags
                then map_option ((@) x) (doPrintf cs xs)
                else None))"

text \<open>
  The text that the \<^verbatim>\<open>fmt.Printf\<close> calls of a trace write to standard output, in order.
\<close>

fun printed :: "event list \<Rightarrow> string option" where
  "printed [] = Some []"
| "printed (FmtPrintf format a # es) =
     (case doPrintf format a of
        None \<Rightarrow> None
      | Some out \<Rightarrow> map_option ((@) out) (printed es))"
| "printed (e # es) = printed es"

subsection \<open>Observations on a trace\<close>

text \<open>The URLs requested, the errors printed, and the formats handed to \<^verbatim>\<open>fmt.Printf\<close>.\<close>

fun gets :: "event list \<Rightarrow> string list" where
  "gets [] = []"
| "gets (HttpGet c url # es) = url # gets es"
| "gets (e # es) = gets es"

fun errors_printed :: "event list \<Rightarrow> error list" where
  "errors_printed [] = []"
| "errors_printed (LogPrintln err # es) = err # errors_printed es"
| "errors_printed (FmtPrintln err # es) = err # errors_printed es"
| "errors_printed (LogFatal err # es) = err # errors_printed es"
| "errors_printed (e # es) = errors_printed es"

fun printf_calls :: "event list \<Rightarrow> (string \<times> string list) list" where
  "printf_calls [] = []"
| "printf_calls (FmtPrintf format a # es) = (format, a) # printf_calls es"
| "printf_calls (e # es) = printf_calls es"

section \<open>The server (\<^verbatim>\<open>https_server.go\<close>, lines 9 to 17)\<close>

record http_Server =
  Addr :: string
  Handler :: handler
  TLSConfig :: tls_Config

text \<open>
  A listener that serves: the address bound, the identity presented, the TLS configuration
  in force and the handler called for each request.
\<close>

record listener =
  l_addr :: string
  l_identity :: tls_Certificate
  l_config :: tls_Config
  l_handler :: handler

text \<open>
  A run of the server. \<^verbatim>\<open>ListenAndServeTLS\<close> returns only with an error; while it serves it
  does not return, which is the first case.
\<close>

datatype server_run =
    ServesForever listener
  | Stops "event list"

text \<open>
  Lines 11 to 16 for a given \<^verbatim>\<open>cfg\<close>. \<^verbatim>\<open>ListenAndServeTLS\<close> stands for the method of the
  library: \<open>Inl err\<close> when it returns \<^verbatim>\<open>err\<close>, \<open>Inr l\<close> when it stays in its accept loop on
  \<open>l\<close>. \<^verbatim>\<open>log.Fatal\<close> prints its argument and calls \<^verbatim>\<open>os.Exit(1)\<close>.
\<close>

definition serve ::
  "(http_Server \<Rightarrow> string \<Rightarrow> string \<Rightarrow> error + listener) \<Rightarrow> tls_Config \<Rightarrow> server_run" where
  "serve ListenAndServeTLS cfg =
     (let srv = \<lparr>Addr = '':8443'', Handler = handler_struct, TLSConfig = cfg\<rparr>
      in case ListenAndServeTLS srv ''server.crt'' ''server.key'' of
           Inl err \<Rightarrow> Stops [LogFatal err, Exit 1]
         | Inr l \<Rightarrow> ServesForever l)"

text \<open>Line 10: \<^verbatim>\<open>cfg := &tls.Config{}\<close>.\<close>

definition server_main ::
  "(http_Server \<Rightarrow> string \<Rightarrow> string \<Rightarrow> error + listener) \<Rightarrow> server_run" where
  "server_main ListenAndServeTLS = serve ListenAndServeTLS tls_Config_zero"

section \<open>Library model: files, certificates and the TLS handshake\<close>

text \<open>
  What follows is not code of the repository. It states, for abstract certificates, the
  contract of the library calls that the programs and the README rely on: which check
  each field of \<^verbatim>\<open>tls.Config\<close> switches, and which error a failed check gives. A
  certificate chain is a leaf with at most one issuer; validity periods, key usage and the
  CA flag of an issuer are outside the abstraction.
\<close>

datatype pem_block = CERTIFICATE certificate | PRIVATE_KEY nat | OTHER_BLOCK

record endpoint =
  ep_leaf :: certificate
  ep_config :: tls_Config
  ep_reply :: Response

text \<open>
  The environment of a run: the files, the root set of the host, the error of
  \<^verbatim>\<open>net.Listen\<close> for the addresses that cannot be bound, and the TLS servers reachable at
  each \<^verbatim>\<open>host:port\<close>.
\<close>

record world =
  files :: "string \<rightharpoonup> pem_block list"
  system_roots :: CertPool
  listen_error :: "string \<rightharpoonup> error"
  peers :: "string \<rightharpoonup> endpoint"

definition ioutil_ReadFile :: "world \<Rightarrow> string \<Rightarrow> error + pem_block list" where
  "ioutil_ReadFile w name =
     (case files w name of None \<Rightarrow> Inl (PathError name) | Some blocks \<Rightarrow> Inr blocks)"

definition x509_NewCertPool :: CertPool where
  "x509_NewCertPool = []"

fun certificates_in :: "pem_block list \<Rightarrow> certificate list" where
  "certificates_in [] = []"
| "certificates_in (CERTIFICATE c # bs) = c # certificates_in bs"
| "certificates_in (b # bs) = certificates_in bs"

fun keys_in :: "pem_block list \<Rightarrow> nat list" where
  "keys_in [] = []"
| "keys_in (PRIVATE_KEY k # bs) = k # keys_in bs"
| "keys_in (b # bs) = keys_in bs"

definition x509_AppendCertsFromPEM :: "CertPool \<Rightarrow> pem_block list \<Rightarrow> CertPool" where
  "x509_AppendCertsFromPEM pool pemCerts = pool @ certificates_in pemCerts"

text \<open>
  \<^verbatim>\<open>tls.LoadX509KeyPair\<close>: both files are read, the first certificate is the leaf, and the
  first private key has to be the key of the leaf.
\<close>

definition tls_X509KeyPair :: "pem_block list \<Rightarrow> pem_block list \<Rightarrow> error + tls_Certificate" where
  "tls_X509KeyPair certPEMBlock keyPEMBlock =
     (case certificates_in certPEMBlock of
        [] \<Rightarrow> Inl KeyPairError
      | leaf # rest \<Rightarrow>
          (case keys_in keyPEMBlock of
             [] \<Rightarrow> Inl KeyPairError
           | k # ks \<Rightarrow>
               if k = public_key leaf then Inr \<lparr>Leaf = leaf, PrivateKey = k\<rparr>
               else Inl KeyPairError))"

definition tls_LoadX509KeyPair :: "world \<Rightarrow> string \<Rightarrow> string \<Rightarrow> error + tls_Certificate" where
  "tls_LoadX509KeyPair w certFile keyFile =
     (case ioutil_ReadFile w certFile of
        Inl err \<Rightarrow> Inl err
      | Inr certPEMBlock \<Rightarrow>
          (case ioutil_ReadFile w keyFile of
             Inl err \<Rightarrow> Inl err
           | Inr keyPEMBlock \<Rightarrow> tls_X509KeyPair certPEMBlock keyPEMBlock))"

text \<open>
  \<^verbatim>\<open>(*http.Server).ListenAndServeTLS\<close>: the address is bound first (an empty \<^verbatim>\<open>Addr\<close> means
  \<^verbatim>\<open>:https\<close>), then the key pair is loaded into a copy of the configuration (unless both
  file names are empty and the configuration has a certificate already), then the accept
  loop starts.
\<close>

definition http_ListenAndServeTLS ::
  "world \<Rightarrow> http_Server \<Rightarrow> string \<Rightarrow> string \<Rightarrow> error + listener" where
  "http_ListenAndServeTLS w srv certFile keyFile =
     (let addr = (if Addr srv = [] then '':https'' else Addr srv)
      in case listen_error w addr of
           Some err \<Rightarrow> Inl err
         | None \<Rightarrow>
             (case (if certFile = [] \<and> keyFile = [] then Certificates (TLSConfig srv) else []) of
                cert # certs \<Rightarrow>
                  Inr \<lparr>l_addr = addr, l_identity = cert,
                       l_config = TLSConfig srv, l_handler = Handler srv\<rparr>
              | [] \<Rightarrow>
                  (case tls_LoadX509KeyPair w certFile keyFile of
                     Inl err \<Rightarrow> Inl err
                   | Inr cert \<Rightarrow>
                       Inr \<lparr>l_addr = addr, l_identity = cert,
                            l_config = (TLSConfig srv)\<lparr>Certificates := [cert]\<rparr>,
                            l_handler = Handler srv\<rparr>)))"

subsection \<open>The handshake\<close>

text \<open>
  A pool covers a certificate when the certificate is in the pool or a certificate of the
  pool holds the key that signed it.
\<close>

definition chains_to :: "CertPool \<Rightarrow> certificate \<Rightarrow> bool" where
  "chains_to roots c = (c \<in> set roots \<or> (\<exists>r \<in> set roots. public_key r = signed_by c))"

text \<open>
  The client's check of the server: skipped with \<^verbatim>\<open>InsecureSkipVerify\<close>; otherwise the host
  name is checked first, then the chain against \<^verbatim>\<open>RootCAs\<close>, or against the root set of
  the host when \<^verbatim>\<open>RootCAs\<close> is nil.
\<close>

definition verifyServerCertificate ::
  "tls_Config \<Rightarrow> CertPool \<Rightarrow> string \<Rightarrow> certificate \<Rightarrow> error option" where
  "verifyServerCertificate c sysroots host leaf =
     (if InsecureSkipVerify c then None
      else if host \<notin> set (valid_for leaf) then Some (HostnameError host)
      else if chains_to (case RootCAs c of None \<Rightarrow> sysroots | Some pool \<Rightarrow> pool) leaf then None
      else Some UnknownAuthorityError)"

text \<open>
  The certificate a client sends. A server with \<^verbatim>\<open>NoClientCert\<close> asks for none. Otherwise
  the server names the issuers it accepts (the certificates of \<^verbatim>\<open>ClientCAs\<close>), and the client
  sends the first of its \<^verbatim>\<open>Certificates\<close> signed by one of them, any certificate when the
  server names no issuer, and no certificate when none fits.
\<close>

definition SupportsCertificate :: "CertPool option \<Rightarrow> tls_Certificate \<Rightarrow> bool" where
  "SupportsCertificate acceptableCAs crt =
     (case acceptableCAs of
        None \<Rightarrow> True
      | Some pool \<Rightarrow> pool = [] \<or> (\<exists>ca \<in> set pool. public_key ca = signed_by (Leaf crt)))"

definition getClientCertificate :: "tls_Config \<Rightarrow> tls_Config \<Rightarrow> certificate list" where
  "getClientCertificate server c =
     (if ClientAuth server = NoClientCert then []
      else case filter (SupportsCertificate (ClientCAs server)) (Certificates c) of
             [] \<Rightarrow> []
           | crt # others \<Rightarrow> [Leaf crt])"

text \<open>The server's check of the client, by its \<^verbatim>\<open>ClientAuth\<close> policy.\<close>

definition requiresClientCert :: "ClientAuthType \<Rightarrow> bool" where
  "requiresClientCert a = (a = RequireAnyClientCert \<or> a = RequireAndVerifyClientCert)"

definition verifiesClientCert :: "ClientAuthType \<Rightarrow> bool" where
  "verifiesClientCert a = (a = VerifyClientCertIfGiven \<or> a = RequireAndVerifyClientCert)"

definition processCertsFromClient ::
  "tls_Config \<Rightarrow> CertPool \<Rightarrow> certificate list \<Rightarrow> error option" where
  "processCertsFromClient c sysroots certs =
     (case certs of
        [] \<Rightarrow> if requiresClientCert (ClientAuth c) then Some ClientCertificateMissing else None
      | cert # rest \<Rightarrow>
          if verifiesClientCert (ClientAuth c) \<and>
             \<not> chains_to (case ClientCAs c of None \<Rightarrow> sysroots | Some pool \<Rightarrow> pool) cert
          then Some ClientCertificateRejected
          else None)"

text \<open>
  A handshake between a client configuration and a server: the client checks the server's
  certificate, then the server checks what the client sent. The result is the error that
  ends the handshake, if any; a rejection by the server reaches the client as the failure
  of its request.
\<close>

definition handshake :: "CertPool \<Rightarrow> tls_Config \<Rightarrow> string \<Rightarrow> endpoint \<Rightarrow> error option" where
  "handshake sysroots c host ep =
     (case verifyServerCertificate c sysroots host (ep_leaf ep) of
        Some err \<Rightarrow> Some err
      | None \<Rightarrow> processCertsFromClient (ep_config ep) sysroots (getClientCertificate (ep_config ep) c))"

subsection \<open>\<^verbatim>\<open>client.Get\<close> over TLS\<close>

text \<open>
  The host and the \<^verbatim>\<open>host:port\<close> of an \<^verbatim>\<open>https\<close> URL; port 443 when the URL names none.
\<close>

definition split_https :: "string \<Rightarrow> (string \<times> string) option" where
  "split_https url =
     (if take 8 url = ''https://''
      then let authority = takeWhile (\<lambda>c. c \<noteq> CHR ''/'') (drop 8 url);
               host = takeWhile (\<lambda>c. c \<noteq> CHR '':'') authority
           in Some (host, if CHR '':'' \<in> set authority then authority else authority @ '':443'')
      else None)"

text \<open>
  One GET: connect, shake hands, and receive the reply of the server. URLs that are not
  \<^verbatim>\<open>https\<close> are outside the model and give an error.
\<close>

definition http_Get :: "world \<Rightarrow> http_Client \<Rightarrow> string \<Rightarrow> error + Response" where
  "http_Get w client url =
     (case split_https url of
        None \<Rightarrow> Inl (OpError ''unsupported protocol scheme'')
      | Some (host, addr) \<Rightarrow>
          (case peers w addr of
             None \<Rightarrow> Inl (OpError ''connection refused'')
           | Some ep \<Rightarrow>
               (case handshake (system_roots w) (TLSClientConfig (Transport client)) host ep of
                  Some err \<Rightarrow> Inl err
                | None \<Rightarrow> Inr (ep_reply ep))))"

text \<open>The errors of trust validation: the two failures of the client's check of the server.\<close>

fun trust_validation_error :: "error \<Rightarrow> bool" where
  "trust_validation_error UnknownAuthorityError = True"
| "trust_validation_error (HostnameError host) = True"
| "trust_validation_error err = False"

subsection \<open>What a client of a listener receives\<close>

text \<open>
  The server calls the handler with a fresh writer for each request and, when the handler
  returns without a header written, writes the header with \<^verbatim>\<open>http.StatusOK\<close>. For a GET
  the reply carries the status and all the bytes the handler wrote; the replies to other
  methods (to HEAD, where the library sends no body) are not modelled. The status line is
  the code and its text; \<^verbatim>\<open>http.StatusText\<close> is cut down to the entry for 200, the library
  has a text for the other registered codes.
\<close>

function Itoa :: "nat \<Rightarrow> string" where
  "Itoa n =
     (if n < 10 then [''0123456789'' ! n] else Itoa (n div 10) @ [''0123456789'' ! (n mod 10)])"
  by pat_completeness auto
termination
  by (relation "measure id") auto

definition StatusText :: "nat \<Rightarrow> string" where
  "StatusText code = (if code = StatusOK then ''OK'' else [])"

definition finishRequest :: "ResponseWriter \<Rightarrow> ResponseWriter" where
  "finishRequest w = (if wroteHeader w then w else WriteHeader w StatusOK)"

text \<open>The request of \<^verbatim>\<open>client.Get\<close> for the client's URL, and the reply to it.\<close>

definition get_request :: Request where
  "get_request = \<lparr>Method = ''GET'', URL = ''/'', Header = [], ReqBody = []\<rparr>"

definition reply_to_get :: "handler \<Rightarrow> Response" where
  "reply_to_get h =
     (let w = finishRequest (ServeHTTP h newResponseWriter get_request)
      in \<lparr>Status = Itoa (status w) @ '' '' @ StatusText (status w),
          StatusCode = status w,
          Body = Inr (written w)\<rparr>)"

text \<open>A listener as the client's peer.\<close>

definition endpoint_of :: "listener \<Rightarrow> endpoint" where
  "endpoint_of l =
     \<lparr>ep_leaf = Leaf (l_identity l), ep_config = l_config l,
      ep_reply = reply_to_get (l_handler l)\<rparr>"

section \<open>The variants of the README\<close>

text \<open>
  The README changes the two programs by diffs. Each definition below is the program
  after one of them; the library calls are parameters, as in the programs above.
\<close>

text \<open>Client, solution 1 of the first error: \<^verbatim>\<open>InsecureSkipVerify: true\<close>.\<close>

definition client_main_insecure :: "(http_Client \<Rightarrow> string \<Rightarrow> error + Response) \<Rightarrow> event list" where
  "client_main_insecure Get =
     request Get \<lparr>Transport = \<lparr>TLSClientConfig = tls_Config_zero\<lparr>InsecureSkipVerify := True\<rparr>\<rparr>\<rparr>"

text \<open>
  Client, solution 2: \<^verbatim>\<open>server.crt\<close> is read, appended to a new pool, and the pool becomes
  \<^verbatim>\<open>RootCAs\<close>. \<^verbatim>\<open>log.Fatal\<close> ends the process when the file cannot be read.
\<close>

definition client_main_rootca ::
  "(string \<Rightarrow> error + pem_block list) \<Rightarrow> (http_Client \<Rightarrow> string \<Rightarrow> error + Response) \<Rightarrow> event list" where
  "client_main_rootca readFile Get =
     ReadFile ''server.crt'' #
     (case readFile ''server.crt'' of
        Inl err \<Rightarrow> [LogFatal err, Exit 1]
      | Inr caCert \<Rightarrow>
          (let caCertPool = x509_AppendCertsFromPEM x509_NewCertPool caCert
           in request Get
                \<lparr>Transport = \<lparr>TLSClientConfig = tls_Config_zero\<lparr>RootCAs := Some caCertPool\<rparr>\<rparr>\<rparr>))"

text \<open>
  Client, last diff: on top of solution 2, the key pair of \<^verbatim>\<open>client.crt\<close> and
  \<^verbatim>\<open>client.key\<close> is loaded and becomes the one entry of \<^verbatim>\<open>Certificates\<close>.
\<close>

definition client_main_mtls ::
  "(string \<Rightarrow> error + pem_block list) \<Rightarrow> (string \<Rightarrow> string \<Rightarrow> error + tls_Certificate) \<Rightarrow>
   (http_Client \<Rightarrow> string \<Rightarrow> error + Response) \<Rightarrow> event list" where
  "client_main_mtls readFile loadX509KeyPair Get =
     ReadFile ''server.crt'' #
     (case readFile ''server.crt'' of
        Inl err \<Rightarrow> [LogFatal err, Exit 1]
      | Inr caCert \<Rightarrow>
          (let caCertPool = x509_AppendCertsFromPEM x509_NewCertPool caCert
           in LoadX509KeyPair ''client.crt'' ''client.key'' #
              (case loadX509KeyPair ''client.crt'' ''client.key'' of
                 Inl err \<Rightarrow> [LogFatal err, Exit 1]
               | Inr cert \<Rightarrow>
                   request Get
                     \<lparr>Transport = \<lparr>TLSClientConfig =
                        tls_Config_zero\<lparr>RootCAs := Some caCertPool, Certificates := [cert]\<rparr>\<rparr>\<rparr>)))"

text \<open>Server, first diff of the last error: \<^verbatim>\<open>ClientAuth: tls.RequireAndVerifyClientCert\<close>.\<close>

definition server_main_clientauth ::
  "(http_Server \<Rightarrow> string \<Rightarrow> string \<Rightarrow> error + listener) \<Rightarrow> server_run" where
  "server_main_clientauth ListenAndServeTLS =
     serve ListenAndServeTLS (tls_Config_zero\<lparr>ClientAuth := RequireAndVerifyClientCert\<rparr>)"

text \<open>
  Server, last diff: \<^verbatim>\<open>client.crt\<close> is read, appended to a new pool, and the pool becomes
  \<^verbatim>\<open>ClientCAs\<close>.
\<close>

definition server_main_mtls ::
  "(string \<Rightarrow> error + pem_block list) \<Rightarrow>
   (http_Server \<Rightarrow> string \<Rightarrow> string \<Rightarrow> error + listener) \<Rightarrow> server_run" where
  "server_main_mtls readFile ListenAndServeTLS =
     (case readFile ''client.crt'' of
        Inl err \<Rightarrow> Stops [ReadFile ''client.crt'', LogFatal err, Exit 1]
      | Inr caCert \<Rightarrow>
          (let caCertPool = x509_AppendCertsFromPEM x509_NewCertPool caCert
           in serve ListenAndServeTLS
                (tls_Config_zero\<lparr>ClientAuth := RequireAndVerifyClientCert,
                                  ClientCAs := Some caCertPool\<rparr>)))"

text \<open>The TLS configurations of the requests in a trace.\<close>

fun configs_used :: "event list \<Rightarrow> tls_Config list" where
  "configs_used [] = []"
| "configs_used (HttpGet c url # es) = TLSClientConfig (Transport c) # configs_used es"
| "configs_used (e # es) = configs_used es"

text \<open>The files a trace opens.\<close>

fun files_read :: "event list \<Rightarrow> string list" where
  "files_read [] = []"
| "files_read (ReadFile name # es) = name # files_read es"
| "files_read (LoadX509KeyPair certFile keyFile # es) = certFile # keyFile # files_read es"
| "files_read (e # es) = files_read es"

section \<open>A concrete host\<close>

text \<open>
  The files of the README's walk-through on one machine: a self-signed server certificate
  for \<^verbatim>\<open>127.0.0.1\<close> with its key, a self-signed client certificate with its key, an empty
  root set, and every address free. \<open>demo_world cfg\<close> is that machine with the server
  running under the TLS configuration \<open>cfg\<close>.
\<close>

definition demo_server_cert :: certificate where
  "demo_server_cert = \<lparr>public_key = 1, signed_by = 1, valid_for = [''127.0.0.1'']\<rparr>"

definition demo_client_cert :: certificate where
  "demo_client_cert = \<lparr>public_key = 2, signed_by = 2, valid_for = []\<rparr>"

definition demo_host :: world where
  "demo_host =
     \<lparr>files = [''server.crt'' \<mapsto> [CERTIFICATE demo_server_cert],
               ''server.key'' \<mapsto> [PRIVATE_KEY 1],
               ''client.crt'' \<mapsto> [CERTIFICATE demo_client_cert],
               ''client.key'' \<mapsto> [PRIVATE_KEY 2]],
      system_roots = [], listen_error = Map.empty, peers = Map.empty\<rparr>"

definition demo_identity :: tls_Certificate where
  "demo_identity = \<lparr>Leaf = demo_server_cert, PrivateKey = 1\<rparr>"

definition demo_client_identity :: tls_Certificate where
  "demo_client_identity = \<lparr>Leaf = demo_client_cert, PrivateKey = 2\<rparr>"

definition demo_listener :: "tls_Config \<Rightarrow> listener" where
  "demo_listener cfg =
     \<lparr>l_addr = '':8443'', l_identity = demo_identity,
      l_config = cfg\<lparr>Certificates := [demo_identity]\<rparr>, l_handler = handler_struct\<rparr>"

definition demo_world :: "tls_Config \<Rightarrow> world" where
  "demo_world cfg =
     demo_host\<lparr>peers := [''127.0.0.1:8443'' \<mapsto> endpoint_of (demo_listener cfg)]\<rparr>"

text \<open>The configuration of the README's last server, and of its last client.\<close>

definition demo_mtls_server_config :: tls_Config where
  "demo_mtls_server_config =
     tls_Config_zero\<lparr>ClientAuth := RequireAndVerifyClientCert, ClientCAs := Some [demo_client_cert]\<rparr>"

definition demo_mtls_client_config :: tls_Config where
  "demo_mtls_client_config =
     tls_Config_zero\<lparr>RootCAs := Some [demo_server_cert], Certificates := [demo_client_identity]\<rparr>"

section \<open>The handler\<close>

lemma Write_fresh:
  "\<not> wroteHeader w \<Longrightarrow>
   Write w data = w\<lparr>wroteHeader := True, status := 200, written := written w @ data\<rparr>"
  by (simp add: Write_def WriteHeader_def StatusOK_def Let_def)

lemma Write_keeps_status:
  "wroteHeader w \<Longrightarrow> Write w data = w\<lparr>written := written w @ data\<rparr>"
  by (simp add: Write_def Let_def)

text \<open>
  C1. For every request, whatever its method, path, headers and body, the handler called
  with the fresh writer of that request writes the header with status 200 and the body
  \<^verbatim>\<open>PONG\<close> followed by a newline, and nothing else.
\<close>

theorem handler_status_200_body_PONG:
  "ServeHTTP h newResponseWriter req =
     \<lparr>wroteHeader = True, status = 200, written = ''PONG\<newline>''\<rparr>"
  by (simp add: ServeHTTP_def Write_def WriteHeader_def StatusOK_def newResponseWriter_def Let_def)

text \<open>The reply to the client's GET is \<^verbatim>\<open>200 OK\<close> with that body.\<close>

lemma reply_to_get_PONG:
  "reply_to_get h = \<lparr>Status = ''200 OK'', StatusCode = 200, Body = Inr ''PONG\<newline>''\<rparr>"
  by (simp add: ServeHTTP_def Write_def WriteHeader_def StatusOK_def newResponseWriter_def
      reply_to_get_def finishRequest_def StatusText_def Let_def)

text \<open>
  C9. The handler is a constant function of the request: for any two requests and any
  state of the writer, the writer is left in the same state, so the bytes written in
  reply to the two requests are the same.
\<close>

theorem handler_ignores_request:
  "ServeHTTP h w req1 = ServeHTTP h w req2"
  by (simp add: ServeHTTP_def)

section \<open>The client's three paths\<close>

lemma request_get_failed:
  "Get c ''https://127.0.0.1:8443'' = Inl err \<Longrightarrow>
   request Get c = [HttpGet c ''https://127.0.0.1:8443'', LogPrintln err, Exit 0]"
  by (simp add: request_def)

lemma request_read_failed:
  "Get c ''https://127.0.0.1:8443'' = Inr resp \<Longrightarrow> Body resp = Inl err \<Longrightarrow>
   request Get c = [HttpGet c ''https://127.0.0.1:8443'', ReadAll, FmtPrintln err, Exit 0]"
  by (simp add: request_def)

lemma request_succeeded:
  "Get c ''https://127.0.0.1:8443'' = Inr resp \<Longrightarrow> Body resp = Inr htmlData \<Longrightarrow>
   request Get c =
     [HttpGet c ''https://127.0.0.1:8443'', ReadAll, FmtPrintf ''%v\<newline>'' [Status resp],
      FmtPrintf htmlData [], BodyClose, Exit 0]"
  by (simp add: request_def)

text \<open>On every path there is one request, to the fixed URL.\<close>

lemma request_gets_once: "gets (request Get c) = [''https://127.0.0.1:8443'']"
  by (simp add: request_def split: sum.splits)

text \<open>
  C4. When \<^verbatim>\<open>client.Get\<close> returns an error, or the read of the body does, the client prints
  that error and nothing else, makes no second request, calls \<^verbatim>\<open>fmt.Printf\<close> for neither
  status nor body, and the process ends.
\<close>

theorem client_error_printed_then_exit:
  assumes "Get \<lparr>Transport = \<lparr>TLSClientConfig = tls_Config_zero\<rparr>\<rparr> ''https://127.0.0.1:8443'' = Inl err \<or>
           (\<exists>resp. Get \<lparr>Transport = \<lparr>TLSClientConfig = tls_Config_zero\<rparr>\<rparr> ''https://127.0.0.1:8443'' = Inr resp \<and>
                   Body resp = Inl err)"
  shows "errors_printed (client_main Get) = [err] \<and>
         gets (client_main Get) = [''https://127.0.0.1:8443''] \<and>
         printf_calls (client_main Get) = [] \<and>
         last (client_main Get) = Exit 0"
  using assms unfolding client_main_def
  by (auto simp: request_get_failed request_read_failed)

theorem client_error_printed_then_exit_witness:
  "errors_printed (client_main (\<lambda>c url. Inl UnknownAuthorityError)) = [UnknownAuthorityError] \<and>
   gets (client_main (\<lambda>c url. Inl UnknownAuthorityError)) = [''https://127.0.0.1:8443''] \<and>
   printf_calls (client_main (\<lambda>c url. Inl UnknownAuthorityError)) = [] \<and>
   last (client_main (\<lambda>c url. Inl UnknownAuthorityError)) = Exit 0"
  using client_error_printed_then_exit [of "\<lambda>c url. Inl UnknownAuthorityError" UnknownAuthorityError]
  by simp

text \<open>
  C10. The trace of the client holds \<^verbatim>\<open>resp.Body.Close()\<close> exactly when the request and the
  read of the body both succeeded: a failed read returns before the \<^verbatim>\<open>defer\<close> statement, and
  the body is not closed.
\<close>

theorem body_closed_iff_read_succeeded:
  "(BodyClose \<in> set (client_main Get)) =
   (\<exists>resp htmlData.
       Get \<lparr>Transport = \<lparr>TLSClientConfig = tls_Config_zero\<rparr>\<rparr> ''https://127.0.0.1:8443'' = Inr resp \<and>
       Body resp = Inr htmlData)"
  unfolding client_main_def request_def
  by (auto split: sum.splits)

theorem body_closed_iff_read_succeeded_witness:
  "BodyClose \<notin> set (client_main
      (\<lambda>c url. Inr \<lparr>Status = ''200 OK'', StatusCode = 200, Body = Inl (OpError ''unexpected EOF'')\<rparr>))"
  using body_closed_iff_read_succeeded
    [of "\<lambda>c url. Inr \<lparr>Status = ''200 OK'', StatusCode = 200, Body = Inl (OpError ''unexpected EOF'')\<rparr>"]
  by simp

subsection \<open>What reaches standard output on success\<close>

lemma doPrintf_status: "doPrintf ''%v\<newline>'' [s] = Some (s @ ''\<newline>'')"
  by simp

lemma doPrintf_plain: "CHR ''%'' \<notin> set body \<Longrightarrow> doPrintf body [] = Some body"
  by (induction body) auto

text \<open>A body without a percent sign is printed as it is, after the status line.\<close>

lemma client_prints_status_then_plain_body:
  assumes "Get \<lparr>Transport = \<lparr>TLSClientConfig = tls_Config_zero\<rparr>\<rparr> ''https://127.0.0.1:8443'' = Inr resp"
    and "Body resp = Inr htmlData"
    and "CHR ''%'' \<notin> set htmlData"
  shows "printed (client_main Get) = Some (Status resp @ ''\<newline>'' @ htmlData)"
proof -
  have "client_main Get =
          [HttpGet \<lparr>Transport = \<lparr>TLSClientConfig = tls_Config_zero\<rparr>\<rparr> ''https://127.0.0.1:8443'',
           ReadAll, FmtPrintf ''%v\<newline>'' [Status resp], FmtPrintf htmlData [], BodyClose, Exit 0]"
    unfolding client_main_def using assms(1,2) by (rule request_succeeded)
  then show ?thesis
    using doPrintf_status [of "Status resp"] doPrintf_plain [OF assms(3)]
    by (simp del: doPrintf.simps directive.simps)
qed

text \<open>
  C3. The client makes one request and, on success, calls \<^verbatim>\<open>fmt.Printf\<close> with the status and
  then with the body as the format string. A body with a percent sign is therefore not
  printed as it is: for the reply \<^verbatim>\<open>200 OK\<close> with body \<^verbatim>\<open>100%\<close> the output ends in
  \<^verbatim>\<open>100%!(NOVERB)\<close>.
\<close>

theorem client_prints_body_as_format:
  "printed (client_main (\<lambda>c url. Inr \<lparr>Status = ''200 OK'', StatusCode = 200, Body = Inr ''100%''\<rparr>)) =
     Some ''200 OK\<newline>100%!(NOVERB)'' \<and>
   ''200 OK\<newline>100%!(NOVERB)'' \<noteq> ''200 OK'' @ ''\<newline>'' @ ''100%''"
  by (simp add: client_main_def request_def)

section \<open>The server's start\<close>

lemma demo_load_server: "tls_LoadX509KeyPair demo_host ''server.crt'' ''server.key'' = Inr demo_identity"
  by (simp add: tls_LoadX509KeyPair_def ioutil_ReadFile_def demo_host_def tls_X509KeyPair_def
      demo_server_cert_def demo_identity_def)

text \<open>
  C5. The server serves exactly when port 8443 can be bound and the key pair of
  \<^verbatim>\<open>server.crt\<close> and \<^verbatim>\<open>server.key\<close> loads; it then listens on \<^verbatim>\<open>:8443\<close>, over TLS, with that
  key pair as its identity and as the one certificate of its configuration.
\<close>

theorem server_listens_8443_with_identity_files:
  "(server_main (http_ListenAndServeTLS w) = ServesForever l) =
   (listen_error w '':8443'' = None \<and>
    (\<exists>cert. tls_LoadX509KeyPair w ''server.crt'' ''server.key'' = Inr cert \<and>
       l = \<lparr>l_addr = '':8443'', l_identity = cert,
            l_config = tls_Config_zero\<lparr>Certificates := [cert]\<rparr>, l_handler = handler_struct\<rparr>))"
  by (auto simp: server_main_def serve_def http_ListenAndServeTLS_def Let_def
      split: option.splits sum.splits)

theorem server_listens_8443_with_identity_files_witness:
  "server_main (http_ListenAndServeTLS demo_host) = ServesForever (demo_listener tls_Config_zero)"
  using server_listens_8443_with_identity_files [of demo_host "demo_listener tls_Config_zero"] demo_load_server
  by (simp add: demo_host_def demo_listener_def)

text \<open>
  C6. When the address cannot be bound, or it can and the identity files do not load, the
  server prints the error through \<^verbatim>\<open>log.Fatal\<close> and the process ends with status 1; it
  does not serve.
\<close>

theorem server_startup_failure_is_fatal:
  assumes "listen_error w '':8443'' = Some err \<or>
           (listen_error w '':8443'' = None \<and>
            tls_LoadX509KeyPair w ''server.crt'' ''server.key'' = Inl err)"
  shows "server_main (http_ListenAndServeTLS w) = Stops [LogFatal err, Exit 1]"
  using assms
  by (auto simp: server_main_def serve_def http_ListenAndServeTLS_def Let_def)

theorem server_startup_failure_is_fatal_witness:
  "server_main (http_ListenAndServeTLS (demo_host\<lparr>files := Map.empty\<rparr>)) =
     Stops [LogFatal (PathError ''server.crt''), Exit 1] \<and>
   server_main (http_ListenAndServeTLS
       (demo_host\<lparr>listen_error := ['':8443'' \<mapsto> OpError ''bind: address already in use'']\<rparr>)) =
     Stops [LogFatal (OpError ''bind: address already in use''), Exit 1]"
  using server_startup_failure_is_fatal [of "demo_host\<lparr>files := Map.empty\<rparr>" "PathError ''server.crt''"]
    server_startup_failure_is_fatal
      [of "demo_host\<lparr>listen_error := ['':8443'' \<mapsto> OpError ''bind: address already in use'']\<rparr>"
          "OpError ''bind: address already in use''"]
  by (simp add: demo_host_def tls_LoadX509KeyPair_def ioutil_ReadFile_def)

section \<open>Trust\<close>

lemma split_https_fixed:
  "split_https ''https://127.0.0.1:8443'' = Some (''127.0.0.1'', ''127.0.0.1:8443'')"
  by (simp add: split_https_def)

text \<open>
  C2. A client that validates (no \<^verbatim>\<open>InsecureSkipVerify\<close>) reaches a server whose
  certificate is self-signed, and no certificate of the client's roots holds that key.
  Then the one GET returns an error of trust validation and no response, and the client
  prints the error and ends.
\<close>

theorem untrusted_server_get_fails:
  assumes "peers w ''127.0.0.1:8443'' = Some ep"
    and "\<not> InsecureSkipVerify cfg"
    and "signed_by (ep_leaf ep) = public_key (ep_leaf ep)"
    and "\<forall>r \<in> set (case RootCAs cfg of None \<Rightarrow> system_roots w | Some pool \<Rightarrow> pool).
           public_key r \<noteq> public_key (ep_leaf ep)"
  shows "\<exists>err. trust_validation_error err \<and>
           http_Get w \<lparr>Transport = \<lparr>TLSClientConfig = cfg\<rparr>\<rparr> ''https://127.0.0.1:8443'' = Inl err \<and>
           request (http_Get w) \<lparr>Transport = \<lparr>TLSClientConfig = cfg\<rparr>\<rparr> =
             [HttpGet \<lparr>Transport = \<lparr>TLSClientConfig = cfg\<rparr>\<rparr> ''https://127.0.0.1:8443'',
              LogPrintln err, Exit 0]"
proof -
  let ?roots = "case RootCAs cfg of None \<Rightarrow> system_roots w | Some pool \<Rightarrow> pool"
  have "\<not> chains_to ?roots (ep_leaf ep)"
    using assms(3,4) by (auto simp: chains_to_def)
  then have "\<exists>err. verifyServerCertificate cfg (system_roots w) ''127.0.0.1'' (ep_leaf ep) = Some err \<and>
               trust_validation_error err"
    using assms(2) by (simp add: verifyServerCertificate_def)
  then obtain err where v: "verifyServerCertificate cfg (system_roots w) ''127.0.0.1'' (ep_leaf ep) = Some err"
    and t: "trust_validation_error err"
    by blast
  have g: "http_Get w \<lparr>Transport = \<lparr>TLSClientConfig = cfg\<rparr>\<rparr> ''https://127.0.0.1:8443'' = Inl err"
    using assms(1) v by (simp add: http_Get_def split_https_fixed handshake_def)
  show ?thesis
    using t g request_get_failed [of "http_Get w" "\<lparr>Transport = \<lparr>TLSClientConfig = cfg\<rparr>\<rparr>" err]
    by blast
qed

theorem untrusted_server_get_fails_witness:
  "\<exists>err. trust_validation_error err \<and>
     http_Get (demo_world tls_Config_zero) \<lparr>Transport = \<lparr>TLSClientConfig = tls_Config_zero\<rparr>\<rparr>
       ''https://127.0.0.1:8443'' = Inl err \<and>
     client_main (http_Get (demo_world tls_Config_zero)) =
       [HttpGet \<lparr>Transport = \<lparr>TLSClientConfig = tls_Config_zero\<rparr>\<rparr> ''https://127.0.0.1:8443'',
        LogPrintln err, Exit 0]"
  using untrusted_server_get_fails
    [of "demo_world tls_Config_zero" "endpoint_of (demo_listener tls_Config_zero)" tls_Config_zero]
  by (simp add: demo_world_def demo_host_def endpoint_of_def demo_listener_def demo_identity_def
      demo_server_cert_def tls_Config_zero_def client_main_def)

section \<open>The options of the client\<close>

lemma insecure_skips_verification:
  "verifyServerCertificate (tls_Config_zero\<lparr>InsecureSkipVerify := True\<rparr>) sysroots host leaf = None"
  by (simp add: verifyServerCertificate_def)

lemma configs_used_request: "configs_used (request Get c) = [TLSClientConfig (Transport c)]"
  by (simp add: request_def split: sum.splits)

lemma files_read_request: "files_read (request Get c) = []"
  by (simp add: request_def split: sum.splits)

lemma client_main_zero_config:
  "configs_used (client_main Get) = [tls_Config_zero] \<and> files_read (client_main Get) = []"
  by (simp add: client_main_def configs_used_request files_read_request)

lemma client_main_insecure_config:
  "configs_used (client_main_insecure Get) = [tls_Config_zero\<lparr>InsecureSkipVerify := True\<rparr>]"
  by (simp add: client_main_insecure_def configs_used_request)

lemma client_main_rootca_config:
  assumes "readFile ''server.crt'' = Inr caCert"
  shows "configs_used (client_main_rootca readFile Get) =
           [tls_Config_zero\<lparr>RootCAs := Some (certificates_in caCert)\<rparr>] \<and>
         files_read (client_main_rootca readFile Get) = [''server.crt'']"
  using assms
  by (simp add: client_main_rootca_def configs_used_request files_read_request
      x509_AppendCertsFromPEM_def x509_NewCertPool_def)

lemma client_main_mtls_config:
  assumes "readFile ''server.crt'' = Inr caCert"
    and "loadX509KeyPair ''client.crt'' ''client.key'' = Inr cert"
  shows "configs_used (client_main_mtls readFile loadX509KeyPair Get) =
           [tls_Config_zero\<lparr>RootCAs := Some (certificates_in caCert), Certificates := [cert]\<rparr>] \<and>
         files_read (client_main_mtls readFile loadX509KeyPair Get) =
           [''server.crt'', ''client.crt'', ''client.key'']"
  using assms
  by (simp add: client_main_mtls_def configs_used_request files_read_request
      x509_AppendCertsFromPEM_def x509_NewCertPool_def)

lemma sole_certificate_presented:
  assumes "Certificates c = [cert]"
    and "ClientAuth server \<noteq> NoClientCert"
    and "SupportsCertificate (ClientCAs server) cert"
  shows "getClientCertificate server c = [Leaf cert]"
  using assms by (simp add: getClientCertificate_def)

text \<open>
  C7. The client as shipped uses the zero configuration and reads no file; the options are
  the README's variants of it. The insecure variant sets \<^verbatim>\<open>InsecureSkipVerify\<close>, under which
  no server certificate is checked. The second variant reads the CA file \<^verbatim>\<open>server.crt\<close> and
  uses the pool holding its certificates as \<^verbatim>\<open>RootCAs\<close>. The last variant also loads
  \<^verbatim>\<open>client.crt\<close> and \<^verbatim>\<open>client.key\<close> as its one certificate, and sends that certificate to a
  server that asks for one and accepts its issuer.
\<close>

theorem client_options:
  "configs_used (client_main Get) = [tls_Config_zero] \<and>
   files_read (client_main Get) = [] \<and>
   configs_used (client_main_insecure Get) = [tls_Config_zero\<lparr>InsecureSkipVerify := True\<rparr>] \<and>
   verifyServerCertificate (tls_Config_zero\<lparr>InsecureSkipVerify := True\<rparr>) sysroots host leaf = None \<and>
   (readFile ''server.crt'' = Inr caCert \<longrightarrow>
      configs_used (client_main_rootca readFile Get) =
        [tls_Config_zero\<lparr>RootCAs := Some (certificates_in caCert)\<rparr>] \<and>
      files_read (client_main_rootca readFile Get) = [''server.crt'']) \<and>
   (readFile ''server.crt'' = Inr caCert \<and> loadX509KeyPair ''client.crt'' ''client.key'' = Inr cert \<longrightarrow>
      configs_used (client_main_mtls readFile loadX509KeyPair Get) =
        [tls_Config_zero\<lparr>RootCAs := Some (certificates_in caCert), Certificates := [cert]\<rparr>] \<and>
      files_read (client_main_mtls readFile loadX509KeyPair Get) =
        [''server.crt'', ''client.crt'', ''client.key''] \<and>
      (ClientAuth server \<noteq> NoClientCert \<and> SupportsCertificate (ClientCAs server) cert \<longrightarrow>
         getClientCertificate server
           (tls_Config_zero\<lparr>RootCAs := Some (certificates_in caCert), Certificates := [cert]\<rparr>) =
         [Leaf cert]))"
  using client_main_zero_config [of Get] client_main_insecure_config [of Get]
    insecure_skips_verification [of sysroots host leaf]
    client_main_rootca_config [of readFile caCert Get]
    client_main_mtls_config [of readFile caCert loadX509KeyPair cert Get]
    sole_certificate_presented [of "tls_Config_zero\<lparr>RootCAs := Some (certificates_in caCert), Certificates := [cert]\<rparr>" cert server]
  by simp

theorem client_options_witness:
  "configs_used (client_main_mtls (ioutil_ReadFile demo_host) (tls_LoadX509KeyPair demo_host)
      (http_Get (demo_world demo_mtls_server_config))) = [demo_mtls_client_config] \<and>
   files_read (client_main_mtls (ioutil_ReadFile demo_host) (tls_LoadX509KeyPair demo_host)
      (http_Get (demo_world demo_mtls_server_config))) = [''server.crt'', ''client.crt'', ''client.key''] \<and>
   getClientCertificate demo_mtls_server_config demo_mtls_client_config = [demo_client_cert]"
  using client_options
    [where readFile = "ioutil_ReadFile demo_host" and caCert = "[CERTIFICATE demo_server_cert]"
       and loadX509KeyPair = "tls_LoadX509KeyPair demo_host" and cert = demo_client_identity
       and server = demo_mtls_server_config
       and Get = "http_Get (demo_world demo_mtls_server_config)"]
  by (simp add: demo_host_def ioutil_ReadFile_def tls_LoadX509KeyPair_def tls_X509KeyPair_def
      demo_client_identity_def demo_client_cert_def demo_mtls_client_config_def
      demo_mtls_server_config_def SupportsCertificate_def)

section \<open>Client certificates\<close>

text \<open>
  C8. The server requires and verifies client certificates, and the client accepts the
  server's certificate. A client that sends no certificate has its request fail: the
  server rejects the handshake. A client that sends a certificate covered by the server's
  \<^verbatim>\<open>ClientCAs\<close> (the roots of the host when \<^verbatim>\<open>ClientCAs\<close> is nil) receives the server's reply.
\<close>

theorem client_certificate_required:
  assumes "peers w ''127.0.0.1:8443'' = Some ep"
    and "ClientAuth (ep_config ep) = RequireAndVerifyClientCert"
    and "verifyServerCertificate cfg (system_roots w) ''127.0.0.1'' (ep_leaf ep) = None"
  shows "(getClientCertificate (ep_config ep) cfg = [] \<longrightarrow>
            http_Get w \<lparr>Transport = \<lparr>TLSClientConfig = cfg\<rparr>\<rparr> ''https://127.0.0.1:8443'' =
              Inl ClientCertificateMissing) \<and>
         (getClientCertificate (ep_config ep) cfg = [leaf] \<and>
          chains_to (case ClientCAs (ep_config ep) of None \<Rightarrow> system_roots w | Some pool \<Rightarrow> pool) leaf \<longrightarrow>
            http_Get w \<lparr>Transport = \<lparr>TLSClientConfig = cfg\<rparr>\<rparr> ''https://127.0.0.1:8443'' =
              Inr (ep_reply ep))"
  using assms
  by (simp add: http_Get_def split_https_fixed handshake_def processCertsFromClient_def
      requiresClientCert_def verifiesClientCert_def)

theorem client_certificate_required_witness:
  "http_Get (demo_world demo_mtls_server_config)
     \<lparr>Transport = \<lparr>TLSClientConfig = tls_Config_zero\<lparr>RootCAs := Some [demo_server_cert]\<rparr>\<rparr>\<rparr>
     ''https://127.0.0.1:8443'' = Inl ClientCertificateMissing \<and>
   http_Get (demo_world demo_mtls_server_config)
     \<lparr>Transport = \<lparr>TLSClientConfig = demo_mtls_client_config\<rparr>\<rparr>
     ''https://127.0.0.1:8443'' =
       Inr \<lparr>Status = ''200 OK'', StatusCode = 200, Body = Inr ''PONG\<newline>''\<rparr>"
  using client_certificate_required
    [of "demo_world demo_mtls_server_config" "endpoint_of (demo_listener demo_mtls_server_config)"
        "tls_Config_zero\<lparr>RootCAs := Some [demo_server_cert]\<rparr>" demo_client_cert]
    client_certificate_required
    [of "demo_world demo_mtls_server_config" "endpoint_of (demo_listener demo_mtls_server_config)"
        demo_mtls_client_config demo_client_cert]
  by (simp add: demo_world_def demo_host_def endpoint_of_def demo_listener_def demo_identity_def
      demo_server_cert_def demo_client_cert_def demo_client_identity_def
      demo_mtls_server_config_def demo_mtls_client_config_def tls_Config_zero_def
      verifyServerCertificate_def chains_to_def getClientCertificate_def SupportsCertificate_def
      reply_to_get_PONG)

section \<open>The README's walk-through on the concrete host\<close>

lemma serve_on_demo_host:
  "serve (http_ListenAndServeTLS demo_host) cfg = ServesForever (demo_listener cfg)"
  using demo_load_server
  by (simp add: serve_def http_ListenAndServeTLS_def demo_listener_def Let_def demo_host_def)

text \<open>The README's two servers with client authentication start with these configurations.\<close>

lemma server_main_clientauth_on_demo_host:
  "server_main_clientauth (http_ListenAndServeTLS demo_host) =
     ServesForever (demo_listener (tls_Config_zero\<lparr>ClientAuth := RequireAndVerifyClientCert\<rparr>))"
  by (simp add: server_main_clientauth_def serve_on_demo_host)

lemma server_main_mtls_on_demo_host:
  "server_main_mtls (ioutil_ReadFile demo_host) (http_ListenAndServeTLS demo_host) =
     ServesForever (demo_listener demo_mtls_server_config)"
proof -
  have "ioutil_ReadFile demo_host ''client.crt'' = Inr [CERTIFICATE demo_client_cert]"
    by (simp add: ioutil_ReadFile_def demo_host_def)
  then show ?thesis
    by (simp add: server_main_mtls_def serve_on_demo_host demo_mtls_server_config_def
        x509_AppendCertsFromPEM_def x509_NewCertPool_def)
qed

text \<open>
  A server that asks for no client certificate accepts every client: the server as shipped
  has \<^verbatim>\<open>ClientAuth\<close> at its zero value.
\<close>

lemma NoClientCert_accepts:
  "ClientAuth server = NoClientCert \<Longrightarrow>
   processCertsFromClient server sysroots (getClientCertificate server c) = None"
  by (simp add: processCertsFromClient_def getClientCertificate_def requiresClientCert_def)

text \<open>
  The client that trusts \<^verbatim>\<open>server.crt\<close>, against the server as shipped: the reply is
  \<^verbatim>\<open>200 OK\<close> with the handler's body, and both are printed.
\<close>

lemma rootca_client_receives_PONG:
  "http_Get (demo_world tls_Config_zero)
     \<lparr>Transport = \<lparr>TLSClientConfig = tls_Config_zero\<lparr>RootCAs := Some [demo_server_cert]\<rparr>\<rparr>\<rparr>
     ''https://127.0.0.1:8443'' =
   Inr \<lparr>Status = ''200 OK'', StatusCode = 200, Body = Inr ''PONG\<newline>''\<rparr>"
  by (simp add: http_Get_def split_https_fixed handshake_def demo_world_def demo_host_def
      endpoint_of_def demo_listener_def demo_identity_def demo_server_cert_def
      verifyServerCertificate_def chains_to_def NoClientCert_accepts tls_Config_zero_def
      processCertsFromClient_def getClientCertificate_def requiresClientCert_def
      reply_to_get_PONG)

lemma rootca_client_prints_PONG:
  "printed (client_main_rootca (ioutil_ReadFile demo_host) (http_Get (demo_world tls_Config_zero))) =
     Some ''200 OK\<newline>PONG\<newline>''"
proof -
  have "ioutil_ReadFile demo_host ''server.crt'' = Inr [CERTIFICATE demo_server_cert]"
    by (simp add: ioutil_ReadFile_def demo_host_def)
  then show ?thesis
    using rootca_client_receives_PONG
    by (simp add: client_main_rootca_def x509_AppendCertsFromPEM_def x509_NewCertPool_def
        request_def)
qed

end
